theory Spec2Isabelle
  imports Complex_Main "HOL-Library.Word"
begin

section \<open>Conventions of the embedding\<close>

text \<open>
  The detectors of \<^verbatim>\<open>backend/models\<close> are embedded shallowly. Python and NumPy
  floating-point numbers are modelled as \<^typ>\<open>real\<close>: the theorems below are statements
  about the formulas of the code in exact arithmetic, not about rounding. The one
  exception is the voice-consistency extractor, whose single-precision statistics are
  computed with overflow to infinity and NaN (see the section on single-precision
  values), because its result on unnormalised samples depends on them. Every
  \<^verbatim>\<open>try/except\<close> of the source is a function returning \<open>py_error + real\<close> (the body)
  and a second function replacing \<open>Inl\<close> by the extractor's fallback constant (the handler).
  The formatted strings of the result (\<^verbatim>\<open>explanation\<close>, \<^verbatim>\<open>duration\<close>,
  \<^verbatim>\<open>video_duration\<close>, \<^verbatim>\<open>image_dimensions\<close>, \<^verbatim>\<open>file_format\<close>) are not part of the model.
\<close>

datatype py_error = ZeroDivisionError | ValueError | IndexError | LibraryError

datatype pyval = PFloat real | PInt int | PBool bool

record result =
  error :: "string option"
  is_deepfake :: bool
  confidence :: real
  manipulation_type :: "string option"
  flags :: "(string \<times> bool) list"
  details :: "(string \<times> pyval) list"

text \<open>The dictionary returned by every \<^verbatim>\<open>except Exception as e\<close> handler of an analyzer.\<close>

definition error_result :: "string \<Rightarrow> result" where
  "error_result msg =
     \<lparr>error = Some msg, is_deepfake = False, confidence = 0.0,
      manipulation_type = None, flags = [], details = []\<rparr>"

section \<open>NumPy reductions over one-dimensional arrays\<close>

definition np_mean :: "real list \<Rightarrow> real" where
  "np_mean xs = sum_list xs / real (length xs)"

definition np_var :: "real list \<Rightarrow> real" where
  "np_var xs = np_mean (map (\<lambda>x. (x - np_mean xs)\<^sup>2) xs)"

definition np_std :: "real list \<Rightarrow> real" where
  "np_std xs = sqrt (np_var xs)"

definition np_diff :: "real list \<Rightarrow> real list" where
  "np_diff xs = map2 (\<lambda>a b. b - a) xs (tl xs)"

fun cumsum_from :: "real \<Rightarrow> real list \<Rightarrow> real list" where
  "cumsum_from acc [] = []"
| "cumsum_from acc (x # xs) = (acc + x) # cumsum_from (acc + x) xs"

definition np_cumsum :: "real list \<Rightarrow> real list" where
  "np_cumsum xs = cumsum_from 0 xs"

text \<open>\<^verbatim>\<open>np.where(cond)[0]\<close> followed by \<^verbatim>\<open>[0]\<close>: the first index at which the condition holds.\<close>

fun first_index :: "('a \<Rightarrow> bool) \<Rightarrow> 'a list \<Rightarrow> nat option" where
  "first_index P [] = None"
| "first_index P (x # xs) =
     (if P x then Some 0 else map_option Suc (first_index P xs))"

text \<open>\<^verbatim>\<open>np.argmax\<close>: the index of the first occurrence of the maximum.\<close>

definition np_argmax :: "real list \<Rightarrow> nat" where
  "np_argmax xs = length (takeWhile (\<lambda>x. x \<noteq> Max (set xs)) xs)"

text \<open>\<^verbatim>\<open>range(0, stop, step)\<close> for a positive step; \<open>stop\<close> may be negative.\<close>

definition py_range0 :: "int \<Rightarrow> nat \<Rightarrow> nat list" where
  "py_range0 stop step =
     (if stop \<le> 0 then [] else map (\<lambda>j. j * step) [0..<(nat stop + step - 1) div step])"

text \<open>
  \<^verbatim>\<open>np.fft.fft\<close>: the discrete Fourier transform
  \<open>X\<^sub>k = \<Sum>\<^sub>n x\<^sub>n exp (-2\<pi>i k n / N)\<close>.
\<close>

definition np_fft :: "real list \<Rightarrow> complex list" where
  "np_fft xs =
     map (\<lambda>k. sum_list (map2 (\<lambda>n x. complex_of_real x *
                 cis (- (2 * pi * real k * real n / real (length xs))))
               [0..<length xs] xs))
         [0..<length xs]"

text \<open>\<^verbatim>\<open>np.fft.fftfreq(n, d)[:n//2]\<close>: the non-negative bin frequencies \<open>k / (n d)\<close>.\<close>

definition fftfreq_half :: "nat \<Rightarrow> real \<Rightarrow> real list" where
  "fftfreq_half n d = map (\<lambda>k. real k * (1 / (real n * d))) [0..<n div 2]"

section \<open>Single-precision values with overflow\<close>

text \<open>
  A float32 value is a real number of magnitude at most \<open>FLT_MAX\<close>, an infinity or NaN.
  An operation whose exact result exceeds \<open>FLT_MAX\<close> in magnitude returns the infinity
  of its sign; infinities and NaN propagate as in IEEE 754. Rounding of results within
  range is not modelled.
\<close>

datatype f32 = Fin real | PInf | NInf | NaN

definition FLT_MAX :: real where
  "FLT_MAX = 340282346638528859811704183484516925440"

definition overflow :: "real \<Rightarrow> f32" where
  "overflow r = (if r > FLT_MAX then PInf else if r < - FLT_MAX then NInf else Fin r)"

fun f32_add :: "f32 \<Rightarrow> f32 \<Rightarrow> f32" where
  "f32_add (Fin a) (Fin b) = overflow (a + b)"
| "f32_add NaN y = NaN"
| "f32_add x NaN = NaN"
| "f32_add PInf NInf = NaN"
| "f32_add NInf PInf = NaN"
| "f32_add PInf y = PInf"
| "f32_add x PInf = PInf"
| "f32_add NInf y = NInf"
| "f32_add x NInf = NInf"

fun f32_neg :: "f32 \<Rightarrow> f32" where
  "f32_neg (Fin a) = Fin (- a)"
| "f32_neg PInf = NInf"
| "f32_neg NInf = PInf"
| "f32_neg NaN = NaN"

definition f32_sub :: "f32 \<Rightarrow> f32 \<Rightarrow> f32" where
  "f32_sub x y = f32_add x (f32_neg y)"

text \<open>\<^verbatim>\<open>x**2\<close> and the product \<^verbatim>\<open>x * x\<close> inside \<^verbatim>\<open>np.std\<close>.\<close>

fun f32_square :: "f32 \<Rightarrow> f32" where
  "f32_square (Fin a) = overflow (a * a)"
| "f32_square PInf = PInf"
| "f32_square NInf = PInf"
| "f32_square NaN = NaN"

text \<open>Division of a sum by the number of its terms; \<open>0 / 0\<close> is NaN.\<close>

fun f32_div_count :: "f32 \<Rightarrow> nat \<Rightarrow> f32" where
  "f32_div_count x 0 = NaN"
| "f32_div_count (Fin a) n = Fin (a / real n)"
| "f32_div_count x n = x"

fun f32_sqrt :: "f32 \<Rightarrow> f32" where
  "f32_sqrt (Fin a) = (if a < 0 then NaN else Fin (sqrt a))"
| "f32_sqrt PInf = PInf"
| "f32_sqrt NInf = NaN"
| "f32_sqrt NaN = NaN"

text \<open>
  The terms are added from left to right. NumPy adds the terms of a contiguous array
  pairwise; the two orders give different results only when a partial sum overflows
  although the total does not, and when the squares of the terms are in range this
  needs more than \<open>10^19\<close> terms.
\<close>

definition f32_sum :: "f32 list \<Rightarrow> f32" where
  "f32_sum xs = fold (\<lambda>x acc. f32_add acc x) xs (Fin 0)"

definition f32_mean :: "f32 list \<Rightarrow> f32" where
  "f32_mean xs = f32_div_count (f32_sum xs) (length xs)"

definition f32_var :: "f32 list \<Rightarrow> f32" where
  "f32_var xs = f32_mean (map (\<lambda>x. f32_square (f32_sub x (f32_mean xs))) xs)"

definition f32_std :: "f32 list \<Rightarrow> f32" where
  "f32_std xs = f32_sqrt (f32_var xs)"

section \<open>Audio detector\<close>

record AudioDeepfakeDetector =
  sample_rate :: nat

text \<open>\<^verbatim>\<open>__init__\<close> sets the only field.\<close>

definition AudioDeepfakeDetector_init :: AudioDeepfakeDetector where
  "AudioDeepfakeDetector_init = \<lparr>sample_rate = 16000\<rparr>"

subsection \<open>Loading\<close>

text \<open>
  What \<^verbatim>\<open>wave.open\<close> reads from a path: frame rate, sample width and the frame bytes.
  A path is modelled by what the two readers of \<^verbatim>\<open>_load_audio\<close> see in it: \<open>wav\<close> is
  \<open>None\<close> when \<^verbatim>\<open>wave.open\<close> raises, \<open>raw\<close> is the file read by
  \<^verbatim>\<open>np.fromfile(path, dtype=np.float32)\<close>, \<open>None\<close> when that raises.
\<close>

record wav_file =
  framerate :: nat
  sampwidth :: nat
  frames :: "8 word list"

record audio_path =
  wav :: "wav_file option"
  raw :: "real list option"

text \<open>\<^verbatim>\<open>np.frombuffer(bytes, dtype=np.int16)\<close>: little-endian pairs; an odd length raises.\<close>

fun frombuffer_int16 :: "8 word list \<Rightarrow> py_error + 16 word list" where
  "frombuffer_int16 [] = Inr []"
| "frombuffer_int16 [b] = Inl ValueError"
| "frombuffer_int16 (lo # hi # bs) =
     (case frombuffer_int16 bs of
        Inl e \<Rightarrow> Inl e
      | Inr ws \<Rightarrow> Inr (word_cat hi lo # ws))"

text \<open>\<^verbatim>\<open>a[::step]\<close> for a positive step.\<close>

definition every_nth :: "nat \<Rightarrow> 'a list \<Rightarrow> 'a list" where
  "every_nth step xs = map (\<lambda>j. xs ! (j * step)) [0..<(length xs + step - 1) div step]"

definition load_wav :: "AudioDeepfakeDetector \<Rightarrow> wav_file \<Rightarrow> py_error + real list" where
  "load_wav self wfile =
     (case (if sampwidth wfile = 2
            then map_sum id (map (\<lambda>w. real_of_int (sint w) / 32767)) (frombuffer_int16 (frames wfile))
            else Inr (map (\<lambda>b. real (unat b) / 255) (frames wfile))) of
        Inl e \<Rightarrow> Inl e
      | Inr audio_data \<Rightarrow>
          if framerate wfile \<noteq> sample_rate self
          then (if sample_rate self = 0 then Inl ZeroDivisionError
                else Inr (every_nth (max 1 (framerate wfile div sample_rate self)) audio_data))
          else Inr audio_data)"

definition load_audio :: "AudioDeepfakeDetector \<Rightarrow> audio_path \<Rightarrow> real list option" where
  "load_audio self p =
     (case (case wav p of None \<Rightarrow> Inl LibraryError | Some wfile \<Rightarrow> load_wav self wfile) of
        Inr audio_data \<Rightarrow> Some audio_data
      | Inl e \<Rightarrow>
          (case raw p of
             Some audio_data \<Rightarrow> Some (take (sample_rate self * 60) audio_data)
           | None \<Rightarrow> None))"

subsection \<open>Spectral extractor\<close>

definition spectrum_magnitude :: "real list \<Rightarrow> real list" where
  "spectrum_magnitude audio = take (length (np_fft audio) div 2) (map cmod (np_fft audio))"

definition spectrum_freqs :: "AudioDeepfakeDetector \<Rightarrow> real list \<Rightarrow> real list" where
  "spectrum_freqs self audio = fftfreq_half (length audio) (1 / real (sample_rate self))"

definition spectral_centroid :: "AudioDeepfakeDetector \<Rightarrow> real list \<Rightarrow> real" where
  "spectral_centroid self audio =
     sum_list (map2 (*) (spectrum_magnitude audio) (spectrum_freqs self audio))
       / (sum_list (spectrum_magnitude audio) + 0.000001)"

text \<open>
  \<^verbatim>\<open>cumsum[-1]\<close> raises IndexError on an empty spectrum (a one-sample waveform);
  an empty index array gives the rolloff 0.
\<close>

definition spectral_rolloff :: "AudioDeepfakeDetector \<Rightarrow> real list \<Rightarrow> py_error + real" where
  "spectral_rolloff self audio =
     (let cumsum = np_cumsum (spectrum_magnitude audio) in
      if cumsum = [] then Inl IndexError
      else (case first_index (\<lambda>c. c \<ge> last cumsum * 0.85) cumsum of
              Some i \<Rightarrow> Inr (spectrum_freqs self audio ! i)
            | None \<Rightarrow> Inr 0))"

definition spectral_analysis_body :: "AudioDeepfakeDetector \<Rightarrow> real list \<Rightarrow> py_error + real" where
  "spectral_analysis_body self audio =
     (if audio = [] then Inl ValueError
      else if sample_rate self = 0 then Inl ZeroDivisionError
      else (case spectral_rolloff self audio of
              Inl e \<Rightarrow> Inl e
            | Inr rolloff \<Rightarrow>
                (let centroid_deviation = \<bar>spectral_centroid self audio - 1500\<bar> / 1500.0;
                     rolloff_deviation = \<bar>rolloff - 4000\<bar> / 4000.0
                 in Inr (min 1.0 (centroid_deviation * 0.5 + rolloff_deviation * 0.5)))))"

definition spectral_analysis :: "AudioDeepfakeDetector \<Rightarrow> real list \<Rightarrow> real" where
  "spectral_analysis self audio =
     (case spectral_analysis_body self audio of Inl e \<Rightarrow> 0.3 | Inr v \<Rightarrow> v)"

subsection \<open>Temporal extractor\<close>

text \<open>The frames \<^verbatim>\<open>audio[i:i+frame_length]\<close> for \<^verbatim>\<open>i in range(0, len(audio) - frame_length, frame_length)\<close>.\<close>

definition frames_of :: "nat \<Rightarrow> real list \<Rightarrow> real list list" where
  "frames_of frame_length audio =
     map (\<lambda>i. take frame_length (drop i audio))
         (py_range0 (int (length audio) - int frame_length) frame_length)"

text \<open>
  The zero-crossing rate the source computes first is never used and cannot raise;
  it is left out. A zero \<^verbatim>\<open>frame_length\<close> makes \<^verbatim>\<open>range\<close> raise ValueError.
\<close>

definition temporal_analysis_body :: "AudioDeepfakeDetector \<Rightarrow> real list \<Rightarrow> py_error + real" where
  "temporal_analysis_body self audio =
     (let frame_length = sample_rate self div 100 in
      if frame_length = 0 then Inl ValueError
      else (let energy = map (\<lambda>frame. sum_list (map (\<lambda>x. x\<^sup>2) frame)) (frames_of frame_length audio) in
            if length energy > 1
            then (let energy_diff = map abs (np_diff energy);
                      transition_variance = np_var energy_diff
                  in Inr (min 1.0 (transition_variance / (np_mean energy + 0.000001))))
            else Inr 0.3))"

definition temporal_analysis :: "AudioDeepfakeDetector \<Rightarrow> real list \<Rightarrow> real" where
  "temporal_analysis self audio =
     (case temporal_analysis_body self audio of Inl e \<Rightarrow> 0.3 | Inr v \<Rightarrow> v)"

subsection \<open>Voice-consistency extractor\<close>

text \<open>
  The extractor squares the samples and sums them in single precision, and the raw
  fallback of the loader does not normalise them: here overflow matters, so the
  statistics of this extractor are computed on \<open>f32\<close> values.
\<close>

definition segment_features :: "real list \<Rightarrow> f32 list" where
  "segment_features segment =
     [f32_mean (map Fin segment), f32_std (map Fin segment),
      f32_mean (map f32_square (map Fin segment))]"

definition voice_segments :: "nat \<Rightarrow> nat \<Rightarrow> real list \<Rightarrow> real list list" where
  "voice_segments segment_length num_segments audio =
     map (\<lambda>i. take segment_length (drop (i * segment_length) audio)) [0..<num_segments]"

text \<open>\<^verbatim>\<open>np.std(segment_features, axis=0)\<close>: one standard deviation per feature column.\<close>

definition std_axis0 :: "f32 list list \<Rightarrow> f32 list" where
  "std_axis0 rows = map (\<lambda>j. f32_std (map (\<lambda>row. row ! j) rows)) [0..<3]"

definition voice_consistency :: "nat \<Rightarrow> nat \<Rightarrow> real list \<Rightarrow> f32" where
  "voice_consistency segment_length num_segments audio =
     f32_sub (Fin 1.0) (f32_mean (std_axis0 (map segment_features
                                  (voice_segments segment_length num_segments audio))))"

text \<open>
  The last two lines of the source on each kind of value: \<^verbatim>\<open>inf > 0.95\<close> holds and
  \<^verbatim>\<open>min(1.0, inf)\<close> is 1.0; \<^verbatim>\<open>-inf > 0.95\<close> and \<^verbatim>\<open>nan > 0.95\<close> are false, and
  \<^verbatim>\<open>max(0.0, x)\<close> returns its first argument 0.0 unless \<^verbatim>\<open>x > 0.0\<close>, hence for
  \<open>-inf\<close> and for \<open>nan\<close>.
\<close>

definition voice_consistency_check_body :: "AudioDeepfakeDetector \<Rightarrow> real list \<Rightarrow> py_error + real" where
  "voice_consistency_check_body self audio =
     (let segment_length = sample_rate self * 2 in
      if segment_length = 0 then Inl ZeroDivisionError
      else (let num_segments = length audio div segment_length in
            if num_segments < 2 then Inr 0.3
            else (case voice_consistency segment_length num_segments audio of
                    Fin consistency \<Rightarrow>
                      if consistency > 0.95 then Inr (min 1.0 consistency)
                      else Inr (max 0.0 ((consistency - 0.7) * 2))
                  | PInf \<Rightarrow> Inr 1.0
                  | NInf \<Rightarrow> Inr 0.0
                  | NaN \<Rightarrow> Inr 0.0)))"

definition voice_consistency_check :: "AudioDeepfakeDetector \<Rightarrow> real list \<Rightarrow> real" where
  "voice_consistency_check self audio =
     (case voice_consistency_check_body self audio of Inl e \<Rightarrow> 0.3 | Inr v \<Rightarrow> v)"

subsection \<open>Prosody extractor\<close>

text \<open>
  \<^verbatim>\<open>np.correlate(frame, frame, mode='full')[len(autocorr)//2:]\<close>: the autocorrelation at
  the lags \<open>0, \<dots>, L - 1\<close>.
\<close>

definition autocorr :: "real list \<Rightarrow> real list" where
  "autocorr frame = map (\<lambda>k. sum_list (map2 (*) (drop k frame) frame)) [0..<length frame]"

definition frame_pitch :: "AudioDeepfakeDetector \<Rightarrow> real list \<Rightarrow> real option" where
  "frame_pitch self frame =
     (let ac = autocorr frame in
      if length ac > 20
      then (let peaks = drop 20 ac in
            if length peaks > 0 \<and> Max (set peaks) > 0
            then (let peak_idx = np_argmax peaks + 20;
                      pitch = (if peak_idx > 0 then real (sample_rate self) / real peak_idx else 0)
                  in if 50 < pitch \<and> pitch < 500 then Some pitch else None)
            else None)
      else None)"

definition prosody_analysis_body :: "AudioDeepfakeDetector \<Rightarrow> real list \<Rightarrow> py_error + real" where
  "prosody_analysis_body self audio =
     (let frame_length = sample_rate self div 50 in
      if frame_length = 0 then Inl ValueError
      else (let pitch_track = List.map_filter (frame_pitch self) (frames_of frame_length audio) in
            if length pitch_track < 10 then Inr 0.3
            else (let pitch_variance = np_var pitch_track;
                      pitch_range = Max (set pitch_track) - Min (set pitch_track);
                      variance_score = min 1.0 (\<bar>pitch_variance - 300\<bar> / 300.0);
                      range_score = min 1.0 (\<bar>pitch_range - 150\<bar> / 150.0)
                  in Inr (variance_score * 0.5 + range_score * 0.5))))"

definition prosody_analysis :: "AudioDeepfakeDetector \<Rightarrow> real list \<Rightarrow> real" where
  "prosody_analysis self audio =
     (case prosody_analysis_body self audio of Inl e \<Rightarrow> 0.3 | Inr v \<Rightarrow> v)"

subsection \<open>Fusion, verdict and label\<close>

definition classify_audio_type :: "real \<Rightarrow> real \<Rightarrow> string" where
  "classify_audio_type spectral consistency =
     (if consistency > 0.75 then ''voice_cloning''
      else if spectral > 0.65 then ''synthesized_speech''
      else if spectral > 0.45 \<or> consistency > 0.45 then ''edited''
      else ''authentic'')"

definition audio_overall_score :: "real \<Rightarrow> real \<Rightarrow> real \<Rightarrow> real \<Rightarrow> real" where
  "audio_overall_score spectral temporal consistency prosody =
     spectral * 0.3 + temporal * 0.3 + consistency * 0.2 + prosody * 0.2"

text \<open>Lines 32 to 59 of \<^verbatim>\<open>analyze\<close>: everything after the four extractors have run.\<close>

definition audio_report :: "AudioDeepfakeDetector \<Rightarrow> real \<Rightarrow> real \<Rightarrow> real \<Rightarrow> real \<Rightarrow> result" where
  "audio_report self spectral temporal consistency prosody =
     (let overall_score = audio_overall_score spectral temporal consistency prosody;
          is_fake = overall_score > 0.55;
          confidence = min 0.98 overall_score
      in \<lparr>error = None, is_deepfake = is_fake, confidence = confidence,
          manipulation_type = Some (classify_audio_type spectral consistency),
          flags = [(''is_voice_cloned'', consistency > 0.7)],
          details = [(''spectral_anomaly_score'', PFloat spectral),
                     (''temporal_anomaly_score'', PFloat temporal),
                     (''voice_consistency_score'', PFloat consistency),
                     (''prosody_score'', PFloat prosody),
                     (''sample_rate'', PInt (int (sample_rate self)))]\<rparr>)"

definition audio_analyze :: "AudioDeepfakeDetector \<Rightarrow> audio_path \<Rightarrow> result" where
  "audio_analyze self p =
     (case load_audio self p of
        None \<Rightarrow> error_result ''Could not load audio file''
      | Some audio_data \<Rightarrow>
          if length audio_data = 0 then error_result ''Could not load audio file''
          else audio_report self
                 (spectral_analysis self audio_data)
                 (temporal_analysis self audio_data)
                 (voice_consistency_check self audio_data)
                 (prosody_analysis self audio_data))"

section \<open>Video detector\<close>

text \<open>
  Pixel arrays that only OpenCV looks at are represented by the measurements the source
  takes of them. A detected face region carries, for each of the three per-face extractors,
  the quantities its OpenCV and NumPy calls return, or \<open>None\<close> when one of them raises:
  \<^item> \<open>texture_obs\<close>: Laplacian variance, Canny edge density and hue variance;
  \<^item> \<open>artifact_obs\<close>: Laplacian variance, \<^verbatim>\<open>gray.shape\<close> and the list
    \<^verbatim>\<open>block_differences\<close> collected by \<^verbatim>\<open>_check_blocking_artifacts\<close>;
  \<^item> \<open>spectrum_obs\<close>: mean magnitude outside and inside the central disc of the
    shifted 2-D transform.
\<close>

record face =
  face_size :: nat
  texture_obs :: "(real \<times> real \<times> real) option"
  artifact_obs :: "(real \<times> (nat \<times> nat) \<times> real list) option"
  spectrum_obs :: "(real \<times> real) option"

record gray_image =
  shape :: "nat \<times> nat"
  pixels :: "nat list"

record video_frame =
  gray :: gray_image
  faces :: "face list"

text \<open>
  A capture: whether the container opened, the frame count and frame rate it reports,
  and the frames \<^verbatim>\<open>cap.read()\<close> returns before \<^verbatim>\<open>ret\<close> is false.
\<close>

record video_capture =
  isOpened :: bool
  frame_count :: int
  fps :: real
  stream :: "video_frame list"

definition analyze_face :: "face \<Rightarrow> real" where
  "analyze_face f =
     (if face_size f = 0 then 0.3
      else (case texture_obs f of
              None \<Rightarrow> 0.3
            | Some (variance, edge_density, color_variance) \<Rightarrow>
                (let smoothness_score = 1.0 - min 1.0 (variance / 500.0);
                     edge_score = (if edge_density < 0.15 then 1.0 - edge_density else edge_density);
                     color_score = min 1.0 (\<bar>color_variance - 20\<bar> / 20.0);
                     anomaly_score = smoothness_score * 0.4 + edge_score * 0.3 + color_score * 0.3
                 in min 1.0 anomaly_score)))"

definition check_blocking_artifacts :: "real list \<Rightarrow> real" where
  "check_blocking_artifacts block_differences =
     (if block_differences \<noteq> [] then min 1.0 (np_mean block_differences / 10.0) else 0.0)"

definition detect_artifacts :: "face \<Rightarrow> real" where
  "detect_artifacts f =
     (if face_size f = 0 then 0.3
      else (case artifact_obs f of
              None \<Rightarrow> 0.3
            | Some (variance, (h, w), block_differences) \<Rightarrow>
                (let block_score = (if h \<ge> 16 \<and> w \<ge> 16
                                    then check_blocking_artifacts block_differences else 0.0)
                 in min 1.0 ((variance / 1000.0) * 0.6 + block_score * 0.4))))"

definition detect_compression_artifacts :: "face \<Rightarrow> real" where
  "detect_compression_artifacts f =
     (if face_size f = 0 then 0.3
      else (case spectrum_obs f of
              None \<Rightarrow> 0.3
            | Some (high_freq_energy, low_freq_energy) \<Rightarrow>
                (let ratio = high_freq_energy / (low_freq_energy + 0.000001)
                 in min 1.0 \<bar>ln (ratio + 0.000001)\<bar>)))"

text \<open>
  \<^verbatim>\<open>cv2.resize\<close> is a parameter: it is only called when two sampled frames differ in
  shape, and \<open>None\<close> stands for its raising, which the handler turns into 0.0.
\<close>

definition compute_temporal_consistency ::
  "(gray_image \<Rightarrow> nat \<times> nat \<Rightarrow> gray_image option) \<Rightarrow> gray_image \<Rightarrow> gray_image \<Rightarrow> real" where
  "compute_temporal_consistency resize prev_frame curr_frame =
     (case (if shape prev_frame \<noteq> shape curr_frame
            then resize curr_frame (shape prev_frame) else Some curr_frame) of
        None \<Rightarrow> 0.0
      | Some resized \<Rightarrow>
          (let diff = map2 (\<lambda>a b. \<bar>real a - real b\<bar>) (pixels prev_frame) (pixels resized);
               mean_diff = np_mean diff
           in min 1.0 (mean_diff / 50.0)))"

record loop_state =
  frames_analyzed :: nat
  anomaly_scores :: "real list"
  face_inconsistencies :: "nat list"
  compression_artifacts :: "real list"
  prev_frame_gray :: "gray_image option"

definition loop_init :: loop_state where
  "loop_init = \<lparr>frames_analyzed = 0, anomaly_scores = [], face_inconsistencies = [],
                compression_artifacts = [], prev_frame_gray = None\<rparr>"

text \<open>The body of \<^verbatim>\<open>for (x, y, w, h) in faces\<close>.\<close>

definition face_step :: "nat \<Rightarrow> face \<Rightarrow> loop_state \<Rightarrow> loop_state" where
  "face_step frame_idx f st =
     st\<lparr>anomaly_scores := anomaly_scores st @ [analyze_face f],
        face_inconsistencies :=
          (if detect_artifacts f > 0.5 then face_inconsistencies st @ [frame_idx]
           else face_inconsistencies st),
        compression_artifacts := compression_artifacts st @ [detect_compression_artifacts f]\<rparr>"

text \<open>The body of \<^verbatim>\<open>if frame_idx % sample_rate == 0\<close>.\<close>

definition sampled_frame_step ::
  "(gray_image \<Rightarrow> nat \<times> nat \<Rightarrow> gray_image option) \<Rightarrow> nat \<Rightarrow> video_frame \<Rightarrow> loop_state \<Rightarrow> loop_state" where
  "sampled_frame_step resize frame_idx frame st =
     (let st1 = fold (face_step frame_idx) (faces frame) st;
          st2 = (case prev_frame_gray st1 of
                   None \<Rightarrow> st1
                 | Some prev \<Rightarrow>
                     if compute_temporal_consistency resize prev (gray frame) > 0.6
                     then st1\<lparr>face_inconsistencies := face_inconsistencies st1 @ [frame_idx]\<rparr>
                     else st1)
      in st2\<lparr>prev_frame_gray := Some (gray frame),
             frames_analyzed := frames_analyzed st2 + 1\<rparr>)"

text \<open>The \<^verbatim>\<open>while cap.isOpened()\<close> loop, one iteration per frame read.\<close>

fun video_loop ::
  "(gray_image \<Rightarrow> nat \<times> nat \<Rightarrow> gray_image option) \<Rightarrow> nat \<Rightarrow> nat \<Rightarrow> loop_state
     \<Rightarrow> video_frame list \<Rightarrow> loop_state" where
  "video_loop resize frame_sample_rate frame_idx st [] = st"
| "video_loop resize frame_sample_rate frame_idx st (frame # rest) =
     video_loop resize frame_sample_rate (frame_idx + 1)
       (if frame_idx mod frame_sample_rate = 0 then sampled_frame_step resize frame_idx frame st else st)
       rest"

definition classify_manipulation :: "real \<Rightarrow> real \<Rightarrow> real \<Rightarrow> string" where
  "classify_manipulation anomaly temporal compression =
     (if anomaly > 0.7 \<and> temporal > 0.4 then ''face_swap''
      else if temporal > 0.5 then ''lip_sync''
      else if anomaly > 0.6 then ''face_reenactment''
      else if compression > 0.6 then ''ai_generated''
      else ''none'')"

definition avg_anomaly :: "loop_state \<Rightarrow> real" where
  "avg_anomaly st = (if anomaly_scores st \<noteq> [] then np_mean (anomaly_scores st) else 0.3)"

definition temporal_inconsistency :: "loop_state \<Rightarrow> real" where
  "temporal_inconsistency st =
     real (length (face_inconsistencies st)) / real (max 1 (frames_analyzed st))"

definition avg_compression :: "loop_state \<Rightarrow> real" where
  "avg_compression st =
     (if compression_artifacts st \<noteq> [] then np_mean (compression_artifacts st) else 0.3)"

definition video_overall_score :: "real \<Rightarrow> real \<Rightarrow> real \<Rightarrow> real" where
  "video_overall_score anomaly temporal compression =
     anomaly * 0.4 + temporal * 0.35 + compression * 0.25"

text \<open>Lines 90 to 120 of \<^verbatim>\<open>analyze_video\<close>: everything after the frame loop.\<close>

definition video_report :: "video_capture \<Rightarrow> loop_state \<Rightarrow> result" where
  "video_report cap st =
     (let overall_score =
            video_overall_score (avg_anomaly st) (temporal_inconsistency st) (avg_compression st);
          is_fake = overall_score > 0.55;
          confidence = min 0.98 overall_score
      in \<lparr>error = None, is_deepfake = is_fake, confidence = confidence,
          manipulation_type = Some (classify_manipulation (avg_anomaly st)
                                      (temporal_inconsistency st) (avg_compression st)),
          flags = [],
          details = [(''frames_analyzed'', PInt (int (frames_analyzed st))),
                     (''anomaly_score'', PFloat (avg_anomaly st)),
                     (''temporal_inconsistency'', PFloat (temporal_inconsistency st)),
                     (''compression_artifacts'', PFloat (avg_compression st)),
                     (''face_inconsistencies'', PInt (int (length (face_inconsistencies st)))),
                     (''fps'', PInt (if fps cap \<ge> 0 then \<lfloor>fps cap\<rfloor> else \<lceil>fps cap\<rceil>))]\<rparr>)"

definition analyze_video ::
  "(gray_image \<Rightarrow> nat \<times> nat \<Rightarrow> gray_image option) \<Rightarrow> video_capture \<Rightarrow> result" where
  "analyze_video resize cap =
     (if \<not> isOpened cap then error_result ''Could not open video file''
      else if frame_count cap = 0 \<or> fps cap = 0 then error_result ''Invalid video file''
      else (let frame_sample_rate = nat (max 1 (frame_count cap div 30))
            in video_report cap (video_loop resize frame_sample_rate 0 loop_init (stream cap))))"

section \<open>Image detector\<close>

text \<open>
  An opened image is represented in the same way, by what each extractor measures:
  \<^item> \<open>pixel_obs\<close>: Canny edge density, Laplacian variance, mean per-channel variance;
  \<^item> \<open>frequency_obs\<close>: mean magnitude outside and inside the central disc;
  \<^item> \<open>ai_obs\<close>: residual-noise variance, the list \<^verbatim>\<open>block_similarities\<close>, mean
    per-channel variance, and for \<^verbatim>\<open>_detect_jpeg_artifacts\<close> the shape of the gray
    image with its list \<^verbatim>\<open>block_discontinuities\<close> (\<open>None\<close> when it raises);
  \<^item> \<open>face_boxes\<close>: for each detected face its width, its height and the variances of
    its top, bottom, left and right edge strips;
  \<^item> \<open>metadata_suspicious\<close>: the flag computed by \<^verbatim>\<open>_metadata_analysis\<close>.
  \<open>None\<close> stands for an exception inside the extractor.
\<close>

record image_obs =
  pixel_obs :: "(real \<times> real \<times> real) option"
  frequency_obs :: "(real \<times> real) option"
  ai_obs :: "(real \<times> real list \<times> real \<times> ((nat \<times> nat) \<times> real list) option) option"
  face_boxes :: "(nat \<times> nat \<times> real \<times> real \<times> real \<times> real) list option"
  metadata_suspicious :: bool

definition pixel_level_analysis :: "image_obs \<Rightarrow> real" where
  "pixel_level_analysis img =
     (case pixel_obs img of
        None \<Rightarrow> 0.3
      | Some (edge_density, variance, color_variance) \<Rightarrow>
          (let smoothness = 1.0 - min 1.0 (variance / 1000.0);
               color_score = min 1.0 (\<bar>color_variance - 500\<bar> / 500.0);
               manipulation_score = smoothness * 0.4 + color_score * 0.3 + (1 - edge_density) * 0.3
           in min 1.0 manipulation_score))"

definition frequency_domain_analysis :: "image_obs \<Rightarrow> real" where
  "frequency_domain_analysis img =
     (case frequency_obs img of
        None \<Rightarrow> 0.3
      | Some (high_freq_energy, low_freq_energy) \<Rightarrow>
          (let freq_ratio = high_freq_energy / (low_freq_energy + 0.000001)
           in min 1.0 (\<bar>ln (freq_ratio + 0.000001)\<bar> / 2.0)))"

definition detect_jpeg_artifacts :: "((nat \<times> nat) \<times> real list) option \<Rightarrow> real" where
  "detect_jpeg_artifacts obs =
     (case obs of
        None \<Rightarrow> 0.3
      | Some ((h, w), block_discontinuities) \<Rightarrow>
          if h < 16 \<or> w < 16 then 0.3
          else (let avg_discontinuity =
                      (if block_discontinuities \<noteq> [] then np_mean block_discontinuities else 0)
                in min 1.0 (avg_discontinuity / 5.0)))"

definition detect_ai_generated :: "image_obs \<Rightarrow> real" where
  "detect_ai_generated img =
     (case ai_obs img of
        None \<Rightarrow> 0.3
      | Some (noise_variance, block_similarities, color_variance, jpeg_obs) \<Rightarrow>
          (let noise_score = min 1.0 (noise_variance / 50.0);
               avg_similarity = (if block_similarities \<noteq> [] then np_mean block_similarities else 0.3);
               color_score = min 1.0 (color_variance / 1000.0);
               jpeg_artifacts = detect_jpeg_artifacts jpeg_obs;
               ai_score = noise_score * 0.25 + avg_similarity * 0.30
                            + color_score * 0.25 + jpeg_artifacts * 0.20
           in min 1.0 ai_score))"

definition face_manipulation_check :: "image_obs \<Rightarrow> real" where
  "face_manipulation_check img =
     (case face_boxes img of
        None \<Rightarrow> 0.3
      | Some boxes \<Rightarrow>
          if length boxes = 0 then 0.2
          else (let manipulation_scores =
                      map (\<lambda>(w, h, top_edge, bottom_edge, left_edge, right_edge).
                             max 0 (1.0 - np_mean [top_edge, bottom_edge, left_edge, right_edge] / 500.0))
                          (filter (\<lambda>(w, h, edges). w > 20 \<and> h > 20) boxes)
                in if manipulation_scores \<noteq> [] then np_mean manipulation_scores else 0.3))"

definition classify_image_type :: "real \<Rightarrow> real \<Rightarrow> real \<Rightarrow> string" where
  "classify_image_type pixel_score ai_score face_score =
     (if ai_score > 0.7 then ''ai_generated''
      else if face_score > 0.65 then ''face_manipulation''
      else if pixel_score > 0.65 then ''edited''
      else ''authentic'')"

definition image_overall_score :: "real \<Rightarrow> real \<Rightarrow> real \<Rightarrow> real \<Rightarrow> real" where
  "image_overall_score pixel frequency ai face_score =
     pixel * 0.25 + frequency * 0.25 + ai * 0.30 + face_score * 0.20"

text \<open>Lines 37 to 65 of the image \<^verbatim>\<open>analyze\<close>.\<close>

definition image_report :: "real \<Rightarrow> real \<Rightarrow> bool \<Rightarrow> real \<Rightarrow> real \<Rightarrow> result" where
  "image_report pixel frequency metadata ai face_score =
     (let overall_score = image_overall_score pixel frequency ai face_score;
          is_fake = overall_score > 0.60;
          confidence = min 0.98 overall_score
      in \<lparr>error = None, is_deepfake = is_fake, confidence = confidence,
          manipulation_type = Some (classify_image_type pixel ai face_score),
          flags = [(''is_ai_generated'', ai > 0.65)],
          details = [(''pixel_analysis_score'', PFloat pixel),
                     (''frequency_analysis_score'', PFloat frequency),
                     (''ai_generated_score'', PFloat ai),
                     (''face_manipulation_score'', PFloat face_score),
                     (''metadata_suspicious'', PBool metadata)]\<rparr>)"

text \<open>
  The argument is \<open>Inl msg\<close> when \<^verbatim>\<open>Image.open(image_path).convert('RGB')\<close> raises an
  exception whose text is \<open>msg\<close>.
\<close>

definition image_analyze :: "string + image_obs \<Rightarrow> result" where
  "image_analyze opened =
     (case opened of
        Inl msg \<Rightarrow> error_result msg
      | Inr img \<Rightarrow>
          image_report (pixel_level_analysis img) (frequency_domain_analysis img)
            (metadata_suspicious img) (detect_ai_generated img)
            (face_manipulation_check img))"

section \<open>Definitions used to state the properties\<close>

subsection \<open>The voice-consistency rule as the specification words it\<close>




subsection \<open>The video label rules as an ordered table\<close>

definition video_rules :: "((real \<Rightarrow> real \<Rightarrow> real \<Rightarrow> bool) \<times> string) list" where
  "video_rules =
     [(\<lambda>anomaly temporal compression. anomaly > 0.7 \<and> temporal > 0.4, ''face_swap''),
      (\<lambda>anomaly temporal compression. temporal > 0.5, ''lip_sync''),
      (\<lambda>anomaly temporal compression. anomaly > 0.6, ''face_reenactment''),
      (\<lambda>anomaly temporal compression. compression > 0.6, ''ai_generated'')]"

fun first_match ::
  "((real \<Rightarrow> real \<Rightarrow> real \<Rightarrow> bool) \<times> string) list \<Rightarrow> real \<Rightarrow> real \<Rightarrow> real \<Rightarrow> string" where
  "first_match [] a t c = ''none''"
| "first_match ((cond, label) # rules) a t c =
     (if cond a t c then label else first_match rules a t c)"

subsection \<open>Statistics that did not overflow\<close>


subsection \<open>Concrete inputs\<close>


text \<open>A container that opens and reports 30 frames at 25 fps, but yields no frame.\<close>

definition empty_stream_capture :: video_capture where
  "empty_stream_capture = \<lparr>isOpened = True, frame_count = 30, fps = 25, stream = []\<rparr>"

text \<open>A silent waveform of five seconds at 16 kHz.\<close>

definition silent_5s :: "real list" where
  "silent_5s = replicate 80000 0"

text \<open>A 16-bit mono file at the target rate whose single sample is the most negative one.\<close>

definition min_sample_wav :: audio_path where
  "min_sample_wav =
     \<lparr>wav = Some \<lparr>framerate = 16000, sampwidth = 2, frames = [0x00, 0x80]\<rparr>, raw = None\<rparr>"

text \<open>
  A clip of one 160 x 120 frame showing three 40 x 40 faces of strong texture
  (Laplacian variance 1000, mean block difference 5).
\<close>

definition blurred_face :: face where
  "blurred_face =
     \<lparr>face_size = 4800, texture_obs = Some (1000, 0.2, 20),
      artifact_obs = Some (1000, (40, 40), replicate 20 5),
      spectrum_obs = Some (0.999999, 0.999999)\<rparr>"

definition three_face_capture :: video_capture where
  "three_face_capture =
     \<lparr>isOpened = True, frame_count = 1, fps = 25,
      stream = [\<lparr>gray = \<lparr>shape = (120, 160), pixels = replicate 19200 128\<rparr>,
                 faces = [blurred_face, blurred_face, blurred_face]\<rparr>]\<rparr>"

text \<open>A capture and a loop state whose fused score is exactly the video threshold.\<close>

definition threshold_capture :: video_capture where
  "threshold_capture = \<lparr>isOpened = True, frame_count = 600, fps = 25, stream = []\<rparr>"

definition threshold_state :: loop_state where
  "threshold_state =
     \<lparr>frames_analyzed = 20, anomaly_scores = [0.55], face_inconsistencies = replicate 11 0,
      compression_artifacts = [0.55], prev_frame_gray = None\<rparr>"

text \<open>The two score lists of a loop state hold values of the unit interval.\<close>

definition scores_ok :: "loop_state \<Rightarrow> bool" where
  "scores_ok st =
     (list_all (\<lambda>x. 0 \<le> x \<and> x \<le> 1) (anomaly_scores st) \<and>
      list_all (\<lambda>x. 0 \<le> x \<and> x \<le> 1) (compression_artifacts st))"

text \<open>
  What the measurements of an image satisfy by construction: an edge density is a
  fraction, variances and absolute differences are not negative.
\<close>

definition image_obs_ok :: "image_obs \<Rightarrow> bool" where
  "image_obs_ok img =
     ((case pixel_obs img of
         None \<Rightarrow> True
       | Some (edge_density, variance, color_variance) \<Rightarrow> edge_density \<le> 1) \<and>
      (case ai_obs img of
         None \<Rightarrow> True
       | Some (noise_variance, block_similarities, color_variance, jpeg_obs) \<Rightarrow>
           0 \<le> noise_variance \<and> list_all (\<lambda>x. 0 \<le> x) block_similarities \<and>
           0 \<le> color_variance \<and>
           (case jpeg_obs of
              None \<Rightarrow> True
            | Some (hw, block_discontinuities) \<Rightarrow>
                list_all (\<lambda>x. 0 \<le> x) block_discontinuities)) \<and>
      (case face_boxes img of
         None \<Rightarrow> True
       | Some boxes \<Rightarrow>
           list_all (\<lambda>(w, h, top_edge, bottom_edge, left_edge, right_edge).
                       0 \<le> top_edge \<and> 0 \<le> bottom_edge \<and> 0 \<le> left_edge \<and> 0 \<le> right_edge)
                    boxes))"

section \<open>Auxiliary facts about the reductions\<close>

lemma sum_list_all_zero:
  "(\<And>x. x \<in> set xs \<Longrightarrow> f x = 0) \<Longrightarrow> sum_list (map f xs) = (0::'a::comm_monoid_add)"
  by (induction xs) auto

lemma sum_list_nonneg_real: "(\<And>x. x \<in> set xs \<Longrightarrow> 0 \<le> x) \<Longrightarrow> 0 \<le> sum_list (xs::real list)"
  by (induction xs) auto

lemma sum_list_le_length:
  "\<forall>x\<in>set xs. x \<le> c \<Longrightarrow> sum_list (xs::real list) \<le> real (length xs) * c"
  by (induction xs) (auto simp: algebra_simps intro: add_mono)

lemma np_mean_nonneg: "(\<And>x. x \<in> set xs \<Longrightarrow> 0 \<le> x) \<Longrightarrow> 0 \<le> np_mean xs"
  unfolding np_mean_def by (intro divide_nonneg_nonneg sum_list_nonneg_real) auto

lemma np_mean_le:
  assumes "xs \<noteq> []" "\<And>x. x \<in> set xs \<Longrightarrow> x \<le> c"
  shows "np_mean xs \<le> c"
proof -
  have "0 < real (length xs)" using assms(1) by simp
  moreover have "sum_list xs \<le> real (length xs) * c"
    using assms(2) by (intro sum_list_le_length) simp
  ultimately show ?thesis
    unfolding np_mean_def by (simp add: pos_divide_le_eq mult.commute)
qed

lemma np_mean_unit:
  assumes "xs \<noteq> []" "list_all (\<lambda>x. 0 \<le> x \<and> x \<le> 1) xs"
  shows "0 \<le> np_mean xs \<and> np_mean xs \<le> 1"
  using assms np_mean_nonneg [of xs] np_mean_le [of xs 1] by (simp add: list_all_iff)

lemma np_var_nonneg: "0 \<le> np_var xs"
  unfolding np_var_def by (rule np_mean_nonneg) auto





lemma np_mean_zeros: "np_mean (replicate n 0) = 0"
  by (simp add: np_mean_def sum_list_replicate)

lemma np_var_zeros: "np_var (replicate n 0) = 0"
  by (simp add: np_var_def np_mean_zeros)

lemma np_std_zeros: "np_std (replicate n 0) = 0"
  by (simp add: np_std_def np_var_zeros)

lemma cumsum_from_zeros: "cumsum_from 0 (replicate n 0) = replicate n 0"
  by (induction n) auto

lemma np_fft_zeros: "np_fft (replicate n 0) = replicate n 0"
proof -
  have "sum_list (map2 (\<lambda>j x. complex_of_real x * cis (- (2 * pi * real k * real j / real n)))
           [0..<n] (replicate n 0)) = 0" for k
    by (rule sum_list_all_zero) (auto dest: set_zip_rightD)
  then show ?thesis
    by (simp add: np_fft_def map_replicate_const)
qed

section \<open>Single-precision statistics\<close>




















lemma voice_segments_const:
  assumes "n * l \<le> m"
  shows "voice_segments l n (replicate m c) = replicate n (replicate l c)"
proof -
  have "min l (m - i * l) = l" if "i < n" for i
  proof -
    from that have "Suc i * l \<le> n * l" by (intro mult_le_mono1) simp
    with assms have "i * l + l \<le> m" by simp
    then show ?thesis by simp
  qed
  then show ?thesis
    by (simp add: voice_segments_def list_eq_iff_nth_eq)
qed

lemma f32_div_count_pos:
  assumes "0 < n"
  shows "f32_div_count (Fin a) n = Fin (a / real n)" "f32_div_count PInf n = PInf"
    "f32_div_count NInf n = NInf" "f32_div_count NaN n = NaN"
  using assms by (cases n; simp)+

lemma fold_add_const:
  assumes "0 \<le> c" "0 \<le> a" "a + real n * c \<le> FLT_MAX"
  shows "fold (\<lambda>x acc. f32_add acc x) (replicate n (Fin c)) (Fin a) = Fin (a + real n * c)"
  using assms
proof (induction n arbitrary: a)
  case 0
  then show ?case by simp
next
  case (Suc n)
  have le: "a + c \<le> a + real (Suc n) * c"
    using Suc.prems(1) by (simp add: algebra_simps mult_nonneg_nonneg)
  with Suc.prems have "a + c \<le> FLT_MAX" "- FLT_MAX \<le> a + c" by linarith+
  then have step: "f32_add (Fin a) (Fin c) = Fin (a + c)"
    by (simp add: overflow_def)
  have "fold (\<lambda>x acc. f32_add acc x) (replicate n (Fin c)) (Fin (a + c)) = Fin (a + c + real n * c)"
    using Suc.prems by (intro Suc.IH) (simp_all add: algebra_simps)
  moreover have "a + c + real n * c = a + real (Suc n) * c"
    by (simp add: algebra_simps)
  ultimately show ?case
    by (simp only: replicate.simps fold_simps step)
qed

lemma f32_mean_const:
  assumes "0 \<le> c" "0 < n" "real n * c \<le> FLT_MAX"
  shows "f32_mean (replicate n (Fin c)) = Fin c"
proof -
  have "f32_sum (replicate n (Fin c)) = Fin (real n * c)"
    unfolding f32_sum_def using fold_add_const [of c 0 n] assms by simp
  then show ?thesis
    using assms(2) by (simp add: f32_mean_def f32_div_count_pos)
qed

lemma f32_mean_zeros: "0 < n \<Longrightarrow> f32_mean (replicate n (Fin 0)) = Fin 0"
  using f32_mean_const [of 0 n] by (simp add: FLT_MAX_def)

lemma f32_std_const:
  assumes "0 \<le> c" "0 < n" "real n * c \<le> FLT_MAX"
  shows "f32_std (replicate n (Fin c)) = Fin 0"
proof -
  have "f32_square (f32_sub (Fin c) (Fin c)) = Fin 0"
    by (simp add: f32_sub_def overflow_def FLT_MAX_def)
  then show ?thesis
    using assms by (simp add: f32_std_def f32_var_def f32_mean_const f32_mean_zeros)
qed








section \<open>The voice-consistency extractor\<close>










text \<open>
  C9. The voice-consistency score never lies in the half-open interval \<open>(0.5, 0.95]\<close>:
  for every waveform it is at most 0.5 (the fallback 0.3 included) or above 0.95.
\<close>

theorem voice_consistency_check_gap:
  "voice_consistency_check self audio \<le> 0.5 \<or> 0.95 < voice_consistency_check self audio"
  unfolding voice_consistency_check_def voice_consistency_check_body_def
  by (auto simp: Let_def min_def max_def split: f32.splits)

section \<open>The silent waveform\<close>

lemma segment_features_zeros: "0 < n \<Longrightarrow> segment_features (replicate n 0) = [Fin 0, Fin 0, Fin 0]"
  using f32_std_const [of 0 n]
  by (simp add: segment_features_def f32_mean_zeros overflow_def FLT_MAX_def)

lemma voice_consistency_zeros:
  assumes "0 < l" "0 < n" "n * l \<le> m"
  shows "voice_consistency l n (replicate m 0) = Fin 1"
proof -
  have rows: "map segment_features (voice_segments l n (replicate m 0))
                = replicate n [Fin 0, Fin 0, Fin 0]"
    using assms by (simp add: voice_segments_const segment_features_zeros)
  have "std_axis0 (replicate n [Fin 0, Fin 0, Fin 0]) = [Fin 0, Fin 0, Fin 0]"
    using assms(2) f32_std_const [of 0 n]
    by (simp add: std_axis0_def upt_rec FLT_MAX_def)
  then show ?thesis
    by (simp add: voice_consistency_def rows f32_mean_def f32_sum_def f32_sub_def overflow_def
          FLT_MAX_def)
qed

lemma voice_consistency_check_zeros:
  assumes "0 < sample_rate self" "2 \<le> m div (sample_rate self * 2)"
  shows "voice_consistency_check self (replicate m 0) = 1"
proof -
  have "m div (sample_rate self * 2) * (sample_rate self * 2) \<le> m" by simp
  then have "voice_consistency (sample_rate self * 2) (m div (sample_rate self * 2)) (replicate m 0) = Fin 1"
    using assms by (intro voice_consistency_zeros) simp_all
  then show ?thesis
    using assms
    by (simp add: voice_consistency_check_def voice_consistency_check_body_def Let_def)
qed

lemma spectrum_magnitude_zeros: "spectrum_magnitude (replicate n 0) = replicate (n div 2) 0"
  by (simp add: spectrum_magnitude_def np_fft_zeros min_def)

lemma spectral_centroid_zeros: "spectral_centroid self (replicate n 0) = 0"
proof -
  have "sum_list (map2 (*) (replicate (n div 2) 0) (spectrum_freqs self (replicate n 0))) = 0"
    by (rule sum_list_all_zero) (auto dest: set_zip_leftD)
  then show ?thesis
    by (simp add: spectral_centroid_def spectrum_magnitude_zeros)
qed

lemma spectral_rolloff_zeros:
  assumes "2 \<le> n"
  shows "spectral_rolloff self (replicate n 0) = Inr 0"
proof -
  from assms have pos: "0 < n div 2"
    by (simp add: div_greater_zero_iff)
  then obtain m where m: "n div 2 = Suc m"
    by (auto simp: gr0_conv_Suc)
  from pos have "spectrum_freqs self (replicate n 0) ! 0 = 0"
    by (simp add: spectrum_freqs_def fftfreq_half_def)
  moreover have "first_index (\<lambda>c::real. 0 \<le> c) (replicate (n div 2) 0) = Some 0"
    by (simp add: m)
  ultimately show ?thesis
    using pos
    by (simp add: spectral_rolloff_def spectrum_magnitude_zeros np_cumsum_def
          cumsum_from_zeros Let_def)
qed

lemma spectral_analysis_zeros:
  assumes "2 \<le> n" "0 < sample_rate self"
  shows "spectral_analysis self (replicate n 0) = 1"
  using assms
  by (auto simp: spectral_analysis_def spectral_analysis_body_def spectral_rolloff_zeros
        spectral_centroid_zeros)

text \<open>
  C6, as stated, fails in its first half. The silent waveform of 80000 samples holds two
  whole segments of 32000 samples, so the guard \<^verbatim>\<open>num_segments < 2\<close> does not fire
  and no statistic raises: the extractor does not return its fallback 0.3.
\<close>

theorem silent_voice_consistency_is_not_fallback:
  "voice_consistency_check AudioDeepfakeDetector_init silent_5s \<noteq> 0.3"
  by (simp add: silent_5s_def voice_consistency_check_zeros AudioDeepfakeDetector_init_def)

text \<open>
  C6, amended. For the silent 5-second 16 kHz waveform the voice-consistency extractor
  finds two segments with identical statistics, hence consistency 1, above 0.95, and
  returns 1; the spectral extractor computes centroid and rolloff as 0 Hz, both deviations
  are maximal and its score is exactly 1.
\<close>

theorem silent_waveform_scores:
  "voice_consistency_check AudioDeepfakeDetector_init silent_5s = 1 \<and>
   spectral_centroid AudioDeepfakeDetector_init silent_5s = 0 \<and>
   spectral_rolloff AudioDeepfakeDetector_init silent_5s = Inr 0 \<and>
   spectral_analysis AudioDeepfakeDetector_init silent_5s = 1"
  by (simp add: silent_5s_def voice_consistency_check_zeros spectral_centroid_zeros
        spectral_rolloff_zeros spectral_analysis_zeros AudioDeepfakeDetector_init_def)

section \<open>Verdict, confidence and labels\<close>

text \<open>
  C2. In each modality the verdict is the strict comparison of the fused score with the
  modality's threshold (audio 0.55, image 0.60, video 0.55): a score equal to the
  threshold gives \<open>is_deepfake = False\<close>, any score above it gives \<open>True\<close>.
\<close>

theorem verdict_strict_threshold:
  "is_deepfake (audio_report self spectral temporal consistency prosody)
     = (audio_overall_score spectral temporal consistency prosody > 0.55) \<and>
   is_deepfake (image_report pixel frequency metadata ai face_score)
     = (image_overall_score pixel frequency ai face_score > 0.60) \<and>
   is_deepfake (video_report cap st)
     = (video_overall_score (avg_anomaly st) (temporal_inconsistency st) (avg_compression st)
          > 0.55)"
  by (simp add: audio_report_def image_report_def video_report_def Let_def)

text \<open>At the three thresholds, and one hundredth above them.\<close>

theorem verdict_strict_threshold_witness:
  "audio_overall_score 0.55 0.55 0.55 0.55 = 0.55 \<and>
   \<not> is_deepfake (audio_report AudioDeepfakeDetector_init 0.55 0.55 0.55 0.55) \<and>
   is_deepfake (audio_report AudioDeepfakeDetector_init 0.56 0.55 0.55 0.55) \<and>
   image_overall_score 0.6 0.6 0.6 0.6 = 0.6 \<and>
   \<not> is_deepfake (image_report 0.6 0.6 False 0.6 0.6) \<and>
   is_deepfake (image_report 0.61 0.6 False 0.6 0.6) \<and>
   video_overall_score (avg_anomaly threshold_state) (temporal_inconsistency threshold_state)
      (avg_compression threshold_state) = 0.55 \<and>
   \<not> is_deepfake (video_report threshold_capture threshold_state) \<and>
   is_deepfake (video_report threshold_capture (threshold_state\<lparr>anomaly_scores := [0.56]\<rparr>))"
  using verdict_strict_threshold [of AudioDeepfakeDetector_init "0.55" "0.55" "0.55" "0.55"
          "0.6" "0.6" False "0.6" "0.6" threshold_capture threshold_state]
    verdict_strict_threshold [of AudioDeepfakeDetector_init "0.56" "0.55" "0.55" "0.55"
          "0.61" "0.6" False "0.6" "0.6" threshold_capture
          "threshold_state\<lparr>anomaly_scores := [0.56]\<rparr>"]
  by (simp add: audio_overall_score_def image_overall_score_def video_overall_score_def
        avg_anomaly_def temporal_inconsistency_def avg_compression_def threshold_state_def
        np_mean_def)

text \<open>
  C3. In each modality the reported confidence is \<open>min 0.98 overall_score\<close>, a function
  of the fused score alone.
\<close>

theorem confidence_is_capped_overall_score:
  "confidence (audio_report self spectral temporal consistency prosody)
     = min 0.98 (audio_overall_score spectral temporal consistency prosody) \<and>
   confidence (image_report pixel frequency metadata ai face_score)
     = min 0.98 (image_overall_score pixel frequency ai face_score) \<and>
   confidence (video_report cap st)
     = min 0.98 (video_overall_score (avg_anomaly st) (temporal_inconsistency st)
                   (avg_compression st))"
  by (simp add: audio_report_def image_report_def video_report_def Let_def)

lemma video_rules_nth:
  "video_rules ! 0 = (\<lambda>a t c. a > 0.7 \<and> t > 0.4, ''face_swap'')"
  "video_rules ! Suc 0 = (\<lambda>a t c. t > 0.5, ''lip_sync'')"
  "video_rules ! 2 = (\<lambda>a t c. a > 0.6, ''face_reenactment'')"
  "video_rules ! 3 = (\<lambda>a t c. c > 0.6, ''ai_generated'')"
  by (simp_all add: video_rules_def)

text \<open>
  C4. The video classifier evaluates the four rules of the table in their fixed order and
  returns the label of the first rule that holds, \<open>none\<close> when no rule holds. Hence, when
  two rules \<open>i < j\<close> hold together, the label of the later rule \<open>j\<close> is never returned,
  and the label of rule \<open>i\<close> is returned whenever no rule before \<open>i\<close> holds as well.
\<close>

theorem classify_manipulation_first_match:
  "classify_manipulation a t c = first_match video_rules a t c \<and>
   (i < j \<and> j < length video_rules \<and> fst (video_rules ! i) a t c \<and> fst (video_rules ! j) a t c
      \<longrightarrow> classify_manipulation a t c \<noteq> snd (video_rules ! j) \<and>
          ((\<forall>k<i. \<not> fst (video_rules ! k) a t c) \<longrightarrow>
             classify_manipulation a t c = snd (video_rules ! i)))"
proof (intro conjI impI)
  show "classify_manipulation a t c = first_match video_rules a t c"
    by (simp add: classify_manipulation_def video_rules_def)
next
  assume h: "i < j \<and> j < length video_rules \<and> fst (video_rules ! i) a t c
               \<and> fst (video_rules ! j) a t c"
  then have "j < 4" "i < j"
    by (simp_all add: video_rules_def)
  then consider "i = 0 \<and> j = 1" | "i = 0 \<and> j = 2" | "i = 0 \<and> j = 3"
    | "i = 1 \<and> j = 2" | "i = 1 \<and> j = 3" | "i = 2 \<and> j = 3"
    by (cases "j = 1"; cases "j = 2"; cases "j = 3"; cases "i = 0"; cases "i = 1"; cases "i = 2")
       simp_all
  note ij = this
  from ij h show "classify_manipulation a t c \<noteq> snd (video_rules ! j)"
    by cases (simp_all add: video_rules_nth classify_manipulation_def)
  assume none: "\<forall>k<i. \<not> fst (video_rules ! k) a t c"
  have n0: "0 < i \<Longrightarrow> \<not> (a > 0.7 \<and> t > 0.4)"
    using none video_rules_nth(1) by (metis fst_conv)
  have n1: "1 < i \<Longrightarrow> \<not> t > 0.5"
    using none video_rules_nth(2) by (metis One_nat_def fst_conv)
  from ij h n0 n1 show "classify_manipulation a t c = snd (video_rules ! i)"
    by cases (simp_all add: video_rules_nth classify_manipulation_def)
qed

text \<open>
  Temporal 0.6 with compression 0.7 and anomaly 0 satisfies the second and the fourth
  rule and not the first: the label is the second rule's.
\<close>

theorem classify_manipulation_first_match_witness:
  "(1::nat) < 3 \<and> 3 < length video_rules \<and>
   fst (video_rules ! 1) 0 0.6 0.7 \<and> fst (video_rules ! 3) 0 0.6 0.7 \<and>
   \<not> fst (video_rules ! 0) 0 0.6 0.7 \<and>
   classify_manipulation 0 0.6 0.7 = ''lip_sync'' \<and>
   classify_manipulation 0 0.6 0.7 \<noteq> ''ai_generated''"
  using classify_manipulation_first_match [of 0 "0.6" "0.7" 1 3]
  by (simp add: video_rules_nth) (simp add: video_rules_def)

text \<open>
  C10. The audio label is computed from the spectral and the voice-consistency score
  alone, whatever the verdict: the breakdown with spectral score 0.5 and the other three
  scores 0 is not flagged as a deepfake, yet its label is \<open>edited\<close>, not \<open>authentic\<close>.
\<close>

theorem label_independent_of_verdict:
  "manipulation_type (audio_report self spectral temporal consistency prosody)
     = Some (classify_audio_type spectral consistency) \<and>
   \<not> is_deepfake (audio_report self 0.5 0 0 0) \<and>
   manipulation_type (audio_report self 0.5 0 0 0) = Some ''edited''"
  by (simp add: audio_report_def Let_def audio_overall_score_def classify_audio_type_def)

section \<open>Fatal failures\<close>

lemma audio_report_not_error: "error (audio_report self s t c p) = None"
  by (simp add: audio_report_def Let_def)

lemma video_report_not_error: "error (video_report cap st) = None"
  by (simp add: video_report_def Let_def)

lemma image_report_not_error: "error (image_report px fr md ai fc) = None"
  by (simp add: image_report_def Let_def)

text \<open>
  In the model an analyzer returns the error dictionary only on the fatal condition of
  its modality.
\<close>

lemma error_only_on_fatal_condition:
  "(error (audio_analyze self p) \<noteq> None)
     = (load_audio self p = None \<or> load_audio self p = Some [])"
  "(error (analyze_video resize cap) \<noteq> None)
     = (\<not> isOpened cap \<or> frame_count cap = 0 \<or> fps cap = 0)"
  "(error (image_analyze opened) \<noteq> None) = (\<exists>msg. opened = Inl msg)"
  by (auto simp: audio_analyze_def analyze_video_def image_analyze_def error_result_def
        audio_report_not_error video_report_not_error image_report_not_error Let_def
      split: option.splits sum.splits)

text \<open>
  C7, as stated, fails for video. A container that opens and reports a frame count and a
  frame rate other than zero, but from which \<^verbatim>\<open>cap.read()\<close> returns no frame, is media
  that yields zero frames; the loop body never runs, the three scores take their defaults
  0.3, 0 and 0.3, and the analyzer returns an ordinary negative verdict with confidence
  \<open>0.3 * 0.4 + 0 * 0.35 + 0.3 * 0.25 = 0.195\<close> and no error.
\<close>

theorem empty_stream_is_not_fatal:
  "stream empty_stream_capture = [] \<and>
   error (analyze_video (\<lambda>img sh. None) empty_stream_capture) = None \<and>
   \<not> is_deepfake (analyze_video (\<lambda>img sh. None) empty_stream_capture) \<and>
   confidence (analyze_video (\<lambda>img sh. None) empty_stream_capture) = 0.195"
  by (simp add: empty_stream_capture_def analyze_video_def video_report_def Let_def loop_init_def
        avg_anomaly_def temporal_inconsistency_def avg_compression_def video_overall_score_def)

text \<open>
  C7, amended. On the fatal conditions the code tests, the analyzer of each modality
  returns (and does not raise) the error dictionary: a message, \<open>is_deepfake = False\<close>
  and \<open>confidence = 0.0\<close>. These conditions are: for audio, the loader returns nothing or
  a waveform of zero samples; for video, the container does not open, or reports a frame
  count or a frame rate of zero; for images, opening the file raises.
\<close>

theorem decode_failure_gives_error_result:
  "(load_audio self p = None \<or> load_audio self p = Some [] \<longrightarrow>
      error (audio_analyze self p) = Some ''Could not load audio file'' \<and>
      \<not> is_deepfake (audio_analyze self p) \<and> confidence (audio_analyze self p) = 0.0) \<and>
   (\<not> isOpened cap \<or> frame_count cap = 0 \<or> fps cap = 0 \<longrightarrow>
      error (analyze_video resize cap)
        = Some (if \<not> isOpened cap then ''Could not open video file'' else ''Invalid video file'') \<and>
      \<not> is_deepfake (analyze_video resize cap) \<and> confidence (analyze_video resize cap) = 0.0) \<and>
   (error (image_analyze (Inl msg)) = Some msg \<and>
      \<not> is_deepfake (image_analyze (Inl msg)) \<and> confidence (image_analyze (Inl msg)) = 0.0)"
  by (auto simp: audio_analyze_def analyze_video_def image_analyze_def error_result_def)

text \<open>
  A path that neither reader can read, a container that opens with a reported frame count
  of zero, and an image file that cannot be identified.
\<close>

theorem decode_failure_gives_error_result_witness:
  "load_audio AudioDeepfakeDetector_init \<lparr>wav = None, raw = None\<rparr> = None \<and>
   audio_analyze AudioDeepfakeDetector_init \<lparr>wav = None, raw = None\<rparr>
     = error_result ''Could not load audio file'' \<and>
   frame_count \<lparr>isOpened = True, frame_count = 0, fps = 25, stream = []\<rparr> = 0 \<and>
   analyze_video (\<lambda>img sh. None) \<lparr>isOpened = True, frame_count = 0, fps = 25, stream = []\<rparr>
     = error_result ''Invalid video file'' \<and>
   image_analyze (Inl ''cannot identify image file'')
     = error_result ''cannot identify image file''"
proof -
  have l: "load_audio AudioDeepfakeDetector_init \<lparr>wav = None, raw = None\<rparr> = None"
    by (simp add: load_audio_def)
  have f: "frame_count \<lparr>isOpened = True, frame_count = 0, fps = 25, stream = []\<rparr> = 0"
    by simp
  from l f
    decode_failure_gives_error_result [of AudioDeepfakeDetector_init "\<lparr>wav = None, raw = None\<rparr>"
      "\<lparr>isOpened = True, frame_count = 0, fps = 25, stream = []\<rparr>" "\<lambda>img sh. None"
      "''cannot identify image file''"]
  have "error (audio_analyze AudioDeepfakeDetector_init \<lparr>wav = None, raw = None\<rparr>)
          = Some ''Could not load audio file''"
    and "error (analyze_video (\<lambda>img sh. None) \<lparr>isOpened = True, frame_count = 0, fps = 25, stream = []\<rparr>)
          = Some ''Invalid video file''"
    by simp_all
  with l f show ?thesis
    by (simp add: audio_analyze_def analyze_video_def image_analyze_def)
qed

section \<open>Amplitude normalisation\<close>

lemma every_nth_subset:
  assumes "0 < step"
  shows "set (every_nth step xs) \<subseteq> set xs"
proof
  fix x assume "x \<in> set (every_nth step xs)"
  then obtain j where j: "j < (length xs + step - 1) div step" and x: "x = xs ! (j * step)"
    by (auto simp: every_nth_def)
  from j have "Suc j \<le> (length xs + step - 1) div step" by simp
  then have "Suc j * step \<le> length xs + step - 1"
    using assms by (simp add: less_eq_div_iff_mult_less_eq)
  then have "j * step < length xs"
    using assms by simp
  then show "x \<in> set xs" using x by simp
qed

lemma frombuffer_int16_range:
  "frombuffer_int16 bs = Inr ws \<Longrightarrow> w \<in> set ws \<Longrightarrow> - 32768 \<le> sint w \<and> sint w \<le> 32767"
  using sint_ge [of w] sint_lt [of w] by simp

text \<open>
  Every sample the wave branch of the loader produces lies between \<open>-32768 / 32767\<close> and
  1: the upper bound of the interval \<open>[-1, 1]\<close> holds, the lower bound is missed by the
  single value below.
\<close>

lemma load_wav_sample_range:
  assumes "load_wav self wfile = Inr audio_data" "x \<in> set audio_data"
  shows "- (32768 / 32767) \<le> x \<and> x \<le> 1"
proof -
  define normalized where "normalized =
    (if sampwidth wfile = 2
     then map_sum id (map (\<lambda>w. real_of_int (sint w) / 32767)) (frombuffer_int16 (frames wfile))
     else Inr (map (\<lambda>b. real (unat b) / 255) (frames wfile)))"
  have nth: "set (every_nth (max 1 (framerate wfile div sample_rate self)) zs) \<subseteq> set zs" for zs :: "real list"
    by (rule every_nth_subset) simp
  from assms(1) obtain ys where ys: "normalized = Inr ys" and sub: "set audio_data \<subseteq> set ys"
    using nth
    by (auto simp: load_wav_def normalized_def [symmetric] simp del: One_nat_def
          split: sum.splits if_splits)
  have "- (32768 / 32767) \<le> y \<and> y \<le> 1" if "y \<in> set ys" for y
  proof (cases "sampwidth wfile = 2")
    case True
    with ys obtain ws where ws: "frombuffer_int16 (frames wfile) = Inr ws"
      and ys': "ys = map (\<lambda>w. real_of_int (sint w) / 32767) ws"
      by (cases "frombuffer_int16 (frames wfile)") (auto simp: normalized_def)
    from that have "y \<in> (\<lambda>w. real_of_int (sint w) / 32767) ` set ws"
      unfolding ys' set_map .
    then obtain w where w: "w \<in> set ws" and y: "y = real_of_int (sint w) / 32767"
      by (rule imageE)
    have "- 32768 \<le> sint w \<and> sint w \<le> 32767"
      using ws w by (rule frombuffer_int16_range)
    then have "- 32768 \<le> real_of_int (sint w) \<and> real_of_int (sint w) \<le> 32767"
      by linarith
    then show ?thesis
      unfolding y by (simp add: field_simps)
  next
    case False
    with ys have ys': "ys = map (\<lambda>b. real (unat b) / 255) (frames wfile)"
      by (simp add: normalized_def)
    from that have "y \<in> (\<lambda>b. real (unat b) / 255) ` set (frames wfile)"
      unfolding ys' set_map .
    then obtain b :: "8 word" where y: "y = real (unat b) / 255"
      by (rule imageE)
    have "unat b < 256"
      using unsigned_less [of b] by simp
    then have "0 \<le> real (unat b) \<and> real (unat b) \<le> 255" by linarith
    then have "0 \<le> real (unat b) / 255 \<and> real (unat b) / 255 \<le> 1" by linarith
    then show ?thesis
      unfolding y by linarith
  qed
  with sub assms(2) show ?thesis by blast
qed

lemma int16_min_real:
  "(signed (word_cat (0x80 :: 8 word) (0x00 :: 8 word) :: 16 word) :: real) = - 32768"
proof -
  have "(word_cat (0x80 :: 8 word) (0x00 :: 8 word) :: 16 word) = 0x8000"
    by (simp add: word_cat_eq push_bit_eq_mult)
  then show ?thesis
    by (simp only:) simp
qed

text \<open>
  C8 does not hold of the loader. A 16-bit file is divided by \<^verbatim>\<open>np.iinfo(np.int16).max\<close>,
  that is 32767, while the largest magnitude of a 16-bit sample is 32768: the sample
  \<open>-32768\<close> (bytes \<open>00 80\<close>) is loaded as \<open>-32768 / 32767\<close>, which is below \<open>-1\<close>.
\<close>

theorem load_audio_int16_minimum_below_minus_one:
  "load_audio AudioDeepfakeDetector_init min_sample_wav = Some [- (32768 / 32767)] \<and>
   - (32768 / 32767) < (- 1 :: real)"
  by (simp add: load_audio_def load_wav_def min_sample_wav_def AudioDeepfakeDetector_init_def
        int16_min_real)

section \<open>Score ranges\<close>

subsection \<open>Audio\<close>

lemma spectral_analysis_range: "0 \<le> spectral_analysis self audio \<and> spectral_analysis self audio \<le> 1"
  by (auto simp: spectral_analysis_def spectral_analysis_body_def Let_def split: sum.splits if_splits)

lemma temporal_analysis_range: "0 \<le> temporal_analysis self audio \<and> temporal_analysis self audio \<le> 1"
proof -
  have "0 \<le> np_var v / (np_mean (map (\<lambda>frame. sum_list (map (\<lambda>x. x\<^sup>2) frame)) fs) + 0.000001)" for v fs
  proof -
    have "0 \<le> np_mean (map (\<lambda>frame. sum_list (map (\<lambda>x::real. x\<^sup>2) frame)) fs)"
      by (rule np_mean_nonneg) (auto intro!: sum_list_nonneg_real)
    then show ?thesis by (intro divide_nonneg_nonneg np_var_nonneg) simp
  qed
  then show ?thesis
    by (auto simp: temporal_analysis_def temporal_analysis_body_def Let_def split: sum.splits if_splits)
qed

lemma voice_consistency_check_range:
  "0 \<le> voice_consistency_check self audio \<and> voice_consistency_check self audio \<le> 1"
  unfolding voice_consistency_check_def voice_consistency_check_body_def
  by (auto simp: Let_def min_def max_def split: f32.splits)

lemma prosody_analysis_range: "0 \<le> prosody_analysis self audio \<and> prosody_analysis self audio \<le> 1"
  by (auto simp: prosody_analysis_def prosody_analysis_body_def Let_def min_def split: sum.splits if_splits)

lemma audio_fusion_range:
  assumes "0 \<le> s \<and> s \<le> 1" "0 \<le> t \<and> t \<le> 1" "0 \<le> c \<and> c \<le> 1" "0 \<le> p \<and> p \<le> 1"
  shows "0 \<le> audio_overall_score s t c p \<and> audio_overall_score s t c p \<le> 1 \<and>
         0 \<le> confidence (audio_report self s t c p) \<and> confidence (audio_report self s t c p) \<le> 0.98"
  using assms by (auto simp: audio_overall_score_def audio_report_def Let_def min_def)

lemma audio_analyze_in_range:
  assumes "load_audio self p = Some audio" "audio \<noteq> []"
  shows "audio_analyze self p = audio_report self (spectral_analysis self audio) (temporal_analysis self audio)
            (voice_consistency_check self audio) (prosody_analysis self audio) \<and>
         0 \<le> confidence (audio_analyze self p) \<and> confidence (audio_analyze self p) \<le> 0.98"
  using assms audio_fusion_range [OF spectral_analysis_range temporal_analysis_range
      voice_consistency_check_range prosody_analysis_range, of self audio self audio self audio self audio self]
  by (simp add: audio_analyze_def)

subsection \<open>Image\<close>

lemma pixel_level_analysis_range:
  assumes "image_obs_ok img"
  shows "0 \<le> pixel_level_analysis img \<and> pixel_level_analysis img \<le> 1"
proof (cases "pixel_obs img")
  case None
  then show ?thesis by (simp add: pixel_level_analysis_def)
next
  case (Some obs)
  obtain e v c where obs: "obs = (e, v, c)" by (cases obs)
  with Some assms have e: "e \<le> 1" by (simp add: image_obs_ok_def)
  have "0 \<le> 1 - min 1 (v / 1000)" by simp
  moreover have "0 \<le> min 1 (\<bar>c - 500\<bar> / 500)" by simp
  ultimately have "0 \<le> (1 - min 1 (v / 1000)) * 0.4 + min 1 (\<bar>c - 500\<bar> / 500) * 0.3 + (1 - e) * 0.3"
    using e by (intro add_nonneg_nonneg mult_nonneg_nonneg) simp_all
  then show ?thesis
    using Some obs by (simp add: pixel_level_analysis_def Let_def)
qed

lemma frequency_domain_analysis_range:
  "0 \<le> frequency_domain_analysis img \<and> frequency_domain_analysis img \<le> 1"
  by (auto simp: frequency_domain_analysis_def Let_def split: option.splits)

lemma detect_jpeg_artifacts_range:
  assumes "case obs of None \<Rightarrow> True | Some (hw, bd) \<Rightarrow> list_all (\<lambda>x. 0 \<le> x) bd"
  shows "0 \<le> detect_jpeg_artifacts obs \<and> detect_jpeg_artifacts obs \<le> 1"
proof (cases obs)
  case None
  then show ?thesis by (simp add: detect_jpeg_artifacts_def)
next
  case (Some p)
  obtain h w bd where p: "p = ((h, w), bd)" by (cases p) auto
  with Some assms have "0 \<le> np_mean bd"
    by (intro np_mean_nonneg) (simp add: list_all_iff)
  then show ?thesis
    using Some p by (simp add: detect_jpeg_artifacts_def Let_def)
qed

lemma detect_ai_generated_range:
  assumes "image_obs_ok img"
  shows "0 \<le> detect_ai_generated img \<and> detect_ai_generated img \<le> 1"
proof (cases "ai_obs img")
  case None
  then show ?thesis by (simp add: detect_ai_generated_def)
next
  case (Some obs)
  obtain nv bs cv jp where obs: "obs = (nv, bs, cv, jp)" by (cases obs)
  from Some obs assms have ok: "0 \<le> nv" "list_all (\<lambda>x. 0 \<le> x) bs" "0 \<le> cv"
    "case jp of None \<Rightarrow> True | Some (hw, bd) \<Rightarrow> list_all (\<lambda>x. 0 \<le> x) bd"
    by (simp_all add: image_obs_ok_def)
  have j: "0 \<le> detect_jpeg_artifacts jp"
    using detect_jpeg_artifacts_range [OF ok(4)] by simp
  have s: "0 \<le> (if bs \<noteq> [] then np_mean bs else 0.3)"
    using ok(2) np_mean_nonneg [of bs] by (simp add: list_all_iff)
  have "0 \<le> min 1 (nv / 50) * 0.25 + (if bs \<noteq> [] then np_mean bs else 0.3) * 0.30
             + min 1 (cv / 1000) * 0.25 + detect_jpeg_artifacts jp * 0.20"
    using ok(1,3) j s by (intro add_nonneg_nonneg mult_nonneg_nonneg) simp_all
  then show ?thesis
    using Some obs by (simp add: detect_ai_generated_def Let_def)
qed

lemma face_manipulation_check_range:
  assumes "image_obs_ok img"
  shows "0 \<le> face_manipulation_check img \<and> face_manipulation_check img \<le> 1"
proof (cases "face_boxes img")
  case None
  then show ?thesis by (simp add: face_manipulation_check_def)
next
  case (Some boxes)
  let ?scores = "map (\<lambda>(w, h, top_edge, bottom_edge, left_edge, right_edge).
                        max 0 (1.0 - np_mean [top_edge, bottom_edge, left_edge, right_edge] / 500.0))
                     (filter (\<lambda>(w, h, edges). w > 20 \<and> h > 20) boxes)"
  from Some assms
  have ok: "list_all (\<lambda>(w, h, t, b, l, r). 0 \<le> t \<and> 0 \<le> b \<and> 0 \<le> l \<and> 0 \<le> r) boxes"
    by (simp add: image_obs_ok_def)
  have "list_all (\<lambda>x. 0 \<le> x \<and> x \<le> 1) ?scores"
  proof -
    have "0 \<le> np_mean [t, b, l, r]" if "(w, h, t, b, l, r) \<in> set boxes" for w h t b l r
      using ok that by (intro np_mean_nonneg) (auto simp: list_all_iff)
    then show ?thesis
      by (auto simp: list_all_iff)
  qed
  then have "?scores \<noteq> [] \<Longrightarrow> 0 \<le> np_mean ?scores \<and> np_mean ?scores \<le> 1"
    by (rule np_mean_unit [rotated])
  then show ?thesis
    using Some by (simp add: face_manipulation_check_def Let_def)
qed

lemma image_fusion_range:
  assumes "0 \<le> px \<and> px \<le> 1" "0 \<le> fr \<and> fr \<le> 1" "0 \<le> ai \<and> ai \<le> 1" "0 \<le> fc \<and> fc \<le> 1"
  shows "0 \<le> image_overall_score px fr ai fc \<and> image_overall_score px fr ai fc \<le> 1 \<and>
         0 \<le> confidence (image_report px fr md ai fc) \<and> confidence (image_report px fr md ai fc) \<le> 0.98"
  using assms by (auto simp: image_overall_score_def image_report_def Let_def min_def)


subsection \<open>Video\<close>

lemma analyze_face_range: "0 \<le> analyze_face f \<and> analyze_face f \<le> 1"
  by (auto simp: analyze_face_def Let_def min_def split: option.splits)

lemma detect_compression_artifacts_range:
  "0 \<le> detect_compression_artifacts f \<and> detect_compression_artifacts f \<le> 1"
  by (auto simp: detect_compression_artifacts_def Let_def split: option.splits)

lemma face_step_ok: "scores_ok st \<Longrightarrow> scores_ok (face_step i f st)"
  using analyze_face_range [of f] detect_compression_artifacts_range [of f]
  by (simp add: scores_ok_def face_step_def)

lemma fold_face_step_ok: "scores_ok st \<Longrightarrow> scores_ok (fold (face_step i) fs st)"
  by (induction fs arbitrary: st) (simp_all add: face_step_ok)

lemma sampled_frame_step_ok: "scores_ok st \<Longrightarrow> scores_ok (sampled_frame_step r i fr st)"
proof -
  assume "scores_ok st"
  then have "scores_ok (fold (face_step i) (faces fr) st)" by (rule fold_face_step_ok)
  then show ?thesis
    by (simp add: sampled_frame_step_def Let_def scores_ok_def split: option.splits)
qed

lemma video_loop_ok: "scores_ok st \<Longrightarrow> scores_ok (video_loop r n i st frs)"
  by (induction frs arbitrary: i st) (simp_all add: sampled_frame_step_ok)

lemma video_scores_range:
  assumes "st = video_loop r n 0 loop_init frs"
  shows "0 \<le> avg_anomaly st \<and> avg_anomaly st \<le> 1 \<and> 0 \<le> avg_compression st \<and> avg_compression st \<le> 1
         \<and> 0 \<le> temporal_inconsistency st
         \<and> 0 \<le> confidence (video_report cap st) \<and> confidence (video_report cap st) \<le> 0.98"
proof -
  have "scores_ok loop_init" by (simp add: scores_ok_def loop_init_def)
  then have ok: "scores_ok st" unfolding assms by (rule video_loop_ok)
  have a: "0 \<le> avg_anomaly st \<and> avg_anomaly st \<le> 1"
    using ok np_mean_unit [of "anomaly_scores st"] by (simp add: avg_anomaly_def scores_ok_def)
  have c: "0 \<le> avg_compression st \<and> avg_compression st \<le> 1"
    using ok np_mean_unit [of "compression_artifacts st"] by (simp add: avg_compression_def scores_ok_def)
  have t: "0 \<le> temporal_inconsistency st" by (simp add: temporal_inconsistency_def)
  from a c t show ?thesis
    by (auto simp: video_report_def Let_def video_overall_score_def min_def)
qed


lemma blurred_face_scores:
  "analyze_face blurred_face = 0.06" "detect_artifacts blurred_face = 0.8"
  "detect_compression_artifacts blurred_face = 0"
  by (simp_all add: analyze_face_def detect_artifacts_def detect_compression_artifacts_def
        blurred_face_def check_blocking_artifacts_def np_mean_def sum_list_replicate)

lemma three_face_loop:
  "video_loop resize (Suc 0) 0 loop_init (stream three_face_capture) =
     \<lparr>frames_analyzed = 1, anomaly_scores = [0.06, 0.06, 0.06], face_inconsistencies = [0, 0, 0],
      compression_artifacts = [0, 0, 0],
      prev_frame_gray = Some \<lparr>shape = (120, 160), pixels = replicate 19200 128\<rparr>\<rparr>"
  by (simp add: three_face_capture_def sampled_frame_step_def face_step_def loop_init_def
        blurred_face_scores Let_def)

text \<open>
  C1 holds of the audio and image analyzers and of the face-anomaly score, the compression
  score and the confidence of the video analyzer (the lemmas above), but not of the video
  temporal-inconsistency score nor of the video overall score. The loop appends the frame
  index to \<^verbatim>\<open>face_inconsistencies\<close> once for every face whose artifact score exceeds
  0.5 and once more for the frame difference, so the list can be longer than the number
  of frames analyzed. On a clip of one frame with three strongly textured faces the
  temporal-inconsistency score is 3 and the fused score is 1.074.
\<close>

theorem video_temporal_score_exceeds_one:
  "temporal_inconsistency (video_loop resize 1 0 loop_init (stream three_face_capture)) = 3 \<and>
   video_overall_score
     (avg_anomaly (video_loop resize 1 0 loop_init (stream three_face_capture)))
     (temporal_inconsistency (video_loop resize 1 0 loop_init (stream three_face_capture)))
     (avg_compression (video_loop resize 1 0 loop_init (stream three_face_capture))) = 1.074 \<and>
   analyze_video resize three_face_capture =
     \<lparr>error = None, is_deepfake = True, confidence = 0.98, manipulation_type = Some ''lip_sync'',
      flags = [],
      details = [(''frames_analyzed'', PInt 1), (''anomaly_score'', PFloat 0.06),
                 (''temporal_inconsistency'', PFloat 3), (''compression_artifacts'', PFloat 0),
                 (''face_inconsistencies'', PInt 3), (''fps'', PInt 25)]\<rparr>"
proof -
  have "isOpened three_face_capture" "frame_count three_face_capture = 1"
    "fps three_face_capture = 25"
    by (simp_all add: three_face_capture_def)
  then show ?thesis
    by (simp add: analyze_video_def three_face_loop video_report_def avg_anomaly_def
          temporal_inconsistency_def avg_compression_def np_mean_def video_overall_score_def
          classify_manipulation_def Let_def)
qed

end
